theory Spec2Isabelle
  imports Complex_Main "HOL-Library.Multiset"
begin

section \<open>Scores and classification (services/threat\_intel.py)\<close>

text \<open>
  Python numbers are modelled as rationals: an int is one, and so is every finite float.
  Where the source computes with floats (the true division and the multiplication in
  \<open>normalize_threat_score\<close>), the model rounds as IEEE 754 double precision does.
  Strings are \<open>string\<close>; the classification tiers are the string literals the source
  returns.
\<close>

datatype py_error = TypeError | OverflowError

text \<open>\<open>d.get(key, default)\<close> on an optional dictionary entry.\<close>

definition dict_get :: "'a option \<Rightarrow> 'a \<Rightarrow> 'a" where
  "dict_get field dflt = (case field of None \<Rightarrow> dflt | Some v \<Rightarrow> v)"

subsection \<open>Double-precision arithmetic on non-negative numbers\<close>

text \<open>\<open>int.bit_length()\<close>.\<close>

fun bit_length :: "nat \<Rightarrow> nat" where
  "bit_length n = (if n = 0 then 0 else Suc (bit_length (n div 2)))"

declare bit_length.simps [simp del]

definition pow2 :: "int \<Rightarrow> rat" where
  "pow2 e = (if 0 \<le> e then 2 ^ nat e else 1 / 2 ^ nat (- e))"

text \<open>The integer nearest to \<open>num / den\<close>, ties to the even one.\<close>

definition round_half_even :: "nat \<Rightarrow> nat \<Rightarrow> nat" where
  "round_half_even num den =
     (let f = num div den; r = num mod den
      in if 2 * r < den then f
         else if den < 2 * r then f + 1
         else if even f then f else f + 1)"

text \<open>
  The double nearest to the fraction \<open>a / b\<close> (ties to even), as a mantissa \<open>m\<close> and an
  exponent \<open>k\<close> standing for \<open>m * 2^k\<close>: \<open>e\<close> is the binary exponent of the fraction,
  \<open>2^e \<le> a / b < 2^(e+1)\<close>, and the spacing of doubles there is \<open>2^(e - 52)\<close>, or
  \<open>2^(-1074)\<close> in the subnormal range. The exponent is not bounded above here; a result of
  \<open>2^1024\<close> or more is what overflows.
\<close>

definition round_double :: "nat \<Rightarrow> nat \<Rightarrow> nat \<times> int" where
  "round_double a b =
     (if a = 0 then (0, 0)
      else
        (let e0 = int (bit_length a) - int (bit_length b);
             e = (if (if 0 \<le> e0 then b * 2 ^ nat e0 \<le> a else b \<le> a * 2 ^ nat (- e0))
                  then e0 else e0 - 1);
             k = max e (- 1022) - 52
         in (if 0 \<le> k then round_half_even a (b * 2 ^ nat k)
             else round_half_even (a * 2 ^ nat (- k)) b, k)))"

definition double_val :: "nat \<times> int \<Rightarrow> rat" where
  "double_val d = of_nat (fst d) * pow2 (snd d)"

definition finite_double :: "nat \<times> int \<Rightarrow> (nat \<times> int) option" where
  "finite_double d = (if pow2 1024 \<le> double_val d then None else Some d)"

text \<open>
  \<open>a / b\<close> on ints with \<open>b > 0\<close>: the correctly rounded quotient; \<open>None\<close> is the
  OverflowError that Python raises when the quotient is too large for a float.
\<close>

definition float_div :: "nat \<Rightarrow> nat \<Rightarrow> (nat \<times> int) option" where
  "float_div a b = finite_double (round_double a b)"

text \<open>
  \<open>x * n\<close> for a float \<open>x\<close> and a small int \<open>n\<close> (exactly representable, as 100 is):
  the correctly rounded product; \<open>None\<close> is the float \<open>inf\<close>, which a float
  multiplication yields on overflow without raising.
\<close>

definition float_mul :: "nat \<times> int \<Rightarrow> nat \<Rightarrow> (nat \<times> int) option" where
  "float_mul d n =
     finite_double
       (if 0 \<le> snd d then round_double (fst d * n * 2 ^ nat (snd d)) 1
        else round_double (fst d * n) (2 ^ nat (- snd d)))"

subsection \<open>Normalisation and classification\<close>

text \<open>
  The \<open>score\<close> argument of \<open>normalize_threat_score\<close> is either a number or a dictionary
  with the optional entries \<open>positives\<close> and \<open>total\<close>, which are detection counts.
\<close>

datatype raw_score = Num rat | Dict "nat option" "nat option"

text \<open>\<open>min(100, score)\<close>: comparing a dictionary with an int raises TypeError.\<close>

fun min_100 :: "raw_score \<Rightarrow> py_error + rat" where
  "min_100 (Num x) = Inr (min 100 x)"
| "min_100 (Dict p t) = Inl TypeError"

text \<open>
  \<open>normalize_threat_score(source, score, max_score=100)\<close>; the parameter \<open>max_score\<close>
  is never read by the body and is left out. In the dictionary branch
  \<open>(positives / total) * 100\<close> is float arithmetic: the division may raise OverflowError,
  and \<open>min(100, inf)\<close> is 100.
\<close>

definition normalize_threat_score :: "string \<Rightarrow> raw_score \<Rightarrow> py_error + rat" where
  "normalize_threat_score source score =
     (if source = ''virustotal'' then
        (case score of
           Dict p t \<Rightarrow>
             (let positives = dict_get p 0; total = dict_get t 1
              in if total > 0
                 then (case float_div positives total of
                         None \<Rightarrow> Inl OverflowError
                       | Some q \<Rightarrow>
                           Inr (case float_mul q 100 of
                                  None \<Rightarrow> 100
                                | Some r \<Rightarrow> min 100 (double_val r)))
                 else Inr 0)
         | Num x \<Rightarrow> min_100 score)
      else if source = ''abuseipdb'' then min_100 score
      else min_100 score)"

text \<open>\<open>_classify_threat_score(score)\<close>.\<close>

definition classify_threat_score :: "rat \<Rightarrow> string" where
  "classify_threat_score score =
     (if score \<ge> 80 then ''critical''
      else if score \<ge> 60 then ''high''
      else if score \<ge> 30 then ''medium''
      else if score > 0 then ''low''
      else ''clean'')"

section \<open>Documents and the collection (services/database.py)\<close>

datatype detail = DNum rat | DStr string | DStrs "string list"

text \<open>One entry of \<open>source_details\<close>: what a single source reported.\<close>

record source_result =
  sr_source :: string
  sr_threat_score :: rat
  sr_classification :: string
  sr_details :: "(string \<times> detail) list"

text \<open>
  \<open>ioc_data\<close> is the dictionary a caller hands to \<open>store_ioc\<close>. The entries \<open>value\<close>
  and \<open>type\<close> are read with \<open>[...]\<close> and are mandatory; every other entry is read with
  \<open>.get\<close> or not at all, and is optional. Callers build it as a literal without \<open>_id\<close>.
\<close>

record ioc_data =
  ioc_value :: string
  ioc_type :: string
  threat_score :: "rat option"
  classification :: "string option"
  sources :: "string list option"
  tags :: "string list option"
  source_details :: "source_result list option"
  description :: "string option"

text \<open>
  A stored document: the entries above plus \<open>_id\<close>, \<open>timestamp\<close> and \<open>last_seen\<close>,
  which the insert path always sets. Times are microseconds since the epoch.
\<close>

record ioc = ioc_data +
  oid :: nat
  timestamp :: int
  last_seen :: int

text \<open>
  The collection \<open>self.iocs\<close> in insertion order, with the next fresh \<open>_id\<close>.
\<close>

record db =
  docs :: "ioc list"
  next_id :: nat

definition empty_db :: db where
  "empty_db = \<lparr>docs = [], next_id = 0\<rparr>"

definition has_key :: "string \<Rightarrow> string \<Rightarrow> ioc \<Rightarrow> bool" where
  "has_key v t d \<longleftrightarrow> ioc_value d = v \<and> ioc_type d = t"

text \<open>\<open>find_one({"value": v, "type": t})\<close>: the first matching document.\<close>

definition find_one :: "string \<Rightarrow> string \<Rightarrow> db \<Rightarrow> ioc option" where
  "find_one v t s = find (has_key v t) (docs s)"

text \<open>\<open>update_one({"_id": i}, {"$set": ...})\<close>: the first document with that id.\<close>

fun update_one :: "nat \<Rightarrow> (ioc \<Rightarrow> ioc) \<Rightarrow> ioc list \<Rightarrow> ioc list" where
  "update_one i f [] = []"
| "update_one i f (d # ds) = (if oid d = i then f d # ds else d # update_one i f ds)"

text \<open>
  What the insert path makes of the argument dictionary: \<open>timestamp\<close>, \<open>last_seen\<close>
  and \<open>tags\<close> are assigned, and \<open>insert_one\<close> adds the fresh \<open>_id\<close>.
\<close>

definition new_doc :: "nat \<Rightarrow> int \<Rightarrow> int \<Rightarrow> ioc_data \<Rightarrow> ioc" where
  "new_doc i now1 now2 x =
     \<lparr>ioc_value = ioc_value x, ioc_type = ioc_type x, threat_score = threat_score x,
      classification = classification x, sources = sources x,
      tags = Some (dict_get (tags x) []), source_details = source_details x,
      description = description x, oid = i, timestamp = now1, last_seen = now2\<rparr>"

text \<open>
  The \<open>$set\<close> of the merge path. \<open>list(set(a + b))\<close> has no duplicates and an
  unspecified order, modelled by \<open>remdups\<close>; theorems speak of its \<open>set\<close> only.
\<close>

definition merge_update :: "int \<Rightarrow> ioc \<Rightarrow> ioc_data \<Rightarrow> ioc \<Rightarrow> ioc" where
  "merge_update now existing x d =
     d\<lparr>last_seen := now,
       sources := Some (remdups (dict_get (sources existing) [] @ dict_get (sources x) [])),
       threat_score := Some (max (dict_get (threat_score existing) 0)
                                 (dict_get (threat_score x) 0))\<rparr>"

text \<open>
  The dictionary the caller holds after the call: untouched on the merge path, filled in
  place on the insert path.
\<close>

datatype pydoc = Plain ioc_data | Stored ioc

text \<open>
  \<open>store_ioc(ioc_data)\<close> with the clock readings of the call: \<open>now1\<close> is the first
  \<open>datetime.utcnow()\<close>, \<open>now2\<close> the second one, taken on the insert path only. The
  result is the returned id, the caller's dictionary afterwards, and the new collection.
\<close>

definition store_ioc :: "int \<Rightarrow> int \<Rightarrow> ioc_data \<Rightarrow> db \<Rightarrow> nat \<times> pydoc \<times> db" where
  "store_ioc now1 now2 x s =
     (case find_one (ioc_value x) (ioc_type x) s of
        Some existing \<Rightarrow>
          (oid existing, Plain x,
           s\<lparr>docs := update_one (oid existing) (merge_update now1 existing x) (docs s)\<rparr>)
      | None \<Rightarrow>
          (let d = new_doc (next_id s) now1 now2 x
           in (next_id s, Stored d, \<lparr>docs = docs s @ [d], next_id = Suc (next_id s)\<rparr>)))"

definition get_ioc :: "string \<Rightarrow> string \<Rightarrow> db \<Rightarrow> ioc option" where
  "get_ioc v t s = find_one v t s"

text \<open>
  \<open>update_ioc_tags(ioc_id, tags)\<close> for a well-formed id: \<open>$set\<close> of \<open>tags\<close>; the result
  is \<open>modified_count > 0\<close>, true when a document matched and its tags changed.
\<close>

definition update_ioc_tags :: "nat \<Rightarrow> string list \<Rightarrow> db \<Rightarrow> bool \<times> db" where
  "update_ioc_tags i new_tags s =
     (case find (\<lambda>d. oid d = i) (docs s) of
        None \<Rightarrow> (False, s)
      | Some d \<Rightarrow> (tags d \<noteq> Some new_tags,
                   s\<lparr>docs := update_one i (\<lambda>d. d\<lparr>tags := Some new_tags\<rparr>) (docs s)\<rparr>))"

text \<open>Storing a sequence of observations, each with the clock readings of its call.\<close>

fun store_all :: "(int \<times> int \<times> ioc_data) list \<Rightarrow> db \<Rightarrow> db" where
  "store_all [] s = s"
| "store_all ((now1, now2, x) # xs) s = store_all xs (snd (snd (store_ioc now1 now2 x s)))"

text \<open>
  Ids are unique and below the counter: holds of the empty collection and is kept by
  every operation above.
\<close>

definition wf_db :: "db \<Rightarrow> bool" where
  "wf_db s \<longleftrightarrow> distinct (map oid (docs s)) \<and> list_all (\<lambda>d. oid d < next_id s) (docs s)"

definition key_count :: "string \<Rightarrow> string \<Rightarrow> db \<Rightarrow> nat" where
  "key_count v t s = length (filter (has_key v t) (docs s))"

section \<open>Source lookups and the cached lookup (services/threat\_intel.py)\<close>

text \<open>
  \<open>(a - b).seconds\<close> of a \<open>timedelta\<close> given in microseconds: Python normalises a
  timedelta to days, \<open>0 \<le> seconds < 86400\<close> and \<open>0 \<le> microseconds < 10^6\<close>, and
  \<open>.seconds\<close> reads the middle component only.
\<close>

definition td_seconds :: "int \<Rightarrow> int" where
  "td_seconds delta = (delta div 1000000) mod 86400"

text \<open>
  The network is the environment: a request either raises inside the \<open>try\<close> block or
  yields a status code and a decoded JSON body.
\<close>

datatype 'a http = Raised | Response int 'a

record vt_json =
  response_code :: "int option"
  detected_urls :: "string list option"
  country :: "string option"
  as_owner :: "string option"
  categories :: "string list option"

record abuse_data =
  abuseConfidencePercentage :: "rat option"
  countryCode :: "string option"
  usageType :: "string option"
  isp :: "string option"
  totalReports :: "rat option"

record env =
  vt_api_key :: "string option"
  abuseipdb_key :: "string option"
  vt_ip_get :: "string \<Rightarrow> vt_json http"
  vt_domain_get :: "string \<Rightarrow> vt_json http"
  abuseipdb_get :: "string \<Rightarrow> abuse_data option http"

text \<open>\<open>not key\<close>: an unset or empty API key.\<close>

definition no_key :: "string option \<Rightarrow> bool" where
  "no_key k \<longleftrightarrow> k = None \<or> k = Some []"

definition vt_result :: "rat \<Rightarrow> (string \<times> detail) list \<Rightarrow> source_result option" where
  "vt_result score details =
     (case normalize_threat_score ''virustotal'' (Num score) of
        Inl e \<Rightarrow> None
      | Inr n \<Rightarrow> Some \<lparr>sr_source = ''virustotal'', sr_threat_score = n,
                        sr_classification = classify_threat_score score,
                        sr_details = details\<rparr>)"

definition lookup_virustotal_ip :: "env \<Rightarrow> string \<Rightarrow> source_result option" where
  "lookup_virustotal_ip e ip =
     (if no_key (vt_api_key e) then None
      else case vt_ip_get e ip of
        Raised \<Rightarrow> None
      | Response status data \<Rightarrow>
          if status = 200 \<and> response_code data = Some 1 then
            (let urls = dict_get (detected_urls data) [];
                 score = of_nat (length urls) * 10
             in vt_result score
                  [(''detected_urls'', DNum (of_nat (length urls))),
                   (''country'', DStr (dict_get (country data) ''Unknown'')),
                   (''as_owner'', DStr (dict_get (as_owner data) ''Unknown''))])
          else None)"

definition lookup_virustotal_domain :: "env \<Rightarrow> string \<Rightarrow> source_result option" where
  "lookup_virustotal_domain e domain =
     (if no_key (vt_api_key e) then None
      else case vt_domain_get e domain of
        Raised \<Rightarrow> None
      | Response status data \<Rightarrow>
          if status = 200 \<and> response_code data = Some 1 then
            (let urls = dict_get (detected_urls data) [];
                 score = of_nat (length urls) * 5
             in vt_result score
                  [(''detected_urls'', DNum (of_nat (length urls))),
                   (''categories'', DStrs (dict_get (categories data) []))])
          else None)"

definition no_abuse_data :: abuse_data where
  "no_abuse_data = \<lparr>abuseConfidencePercentage = None, countryCode = None, usageType = None,
                    isp = None, totalReports = None\<rparr>"

definition lookup_abuseipdb :: "env \<Rightarrow> string \<Rightarrow> source_result option" where
  "lookup_abuseipdb e ip =
     (if no_key (abuseipdb_key e) then None
      else case abuseipdb_get e ip of
        Raised \<Rightarrow> None
      | Response status body \<Rightarrow>
          if status = 200 then
            (let data = dict_get body no_abuse_data;
                 confidence = dict_get (abuseConfidencePercentage data) 0
             in case normalize_threat_score ''abuseipdb'' (Num confidence) of
                  Inl err \<Rightarrow> None
                | Inr n \<Rightarrow>
                    Some \<lparr>sr_source = ''abuseipdb'', sr_threat_score = n,
                          sr_classification = classify_threat_score confidence,
                          sr_details =
                            [(''abuse_confidence'', DNum confidence),
                             (''country_code'', DStr (dict_get (countryCode data) ''Unknown'')),
                             (''usage_type'', DStr (dict_get (usageType data) ''Unknown'')),
                             (''isp'', DStr (dict_get (isp data) ''Unknown'')),
                             (''total_reports'', DNum (dict_get (totalReports data) 0))]\<rparr>)
          else None)"

text \<open>The calls \<open>lookup_ioc\<close> makes to the source lookups, in order.\<close>

datatype source_call = VT_ip string | AbuseIPDB string | VT_domain string

definition opt_list :: "'a option \<Rightarrow> 'a list" where
  "opt_list r = (case r of None \<Rightarrow> [] | Some v \<Rightarrow> [v])"

definition fan_out :: "env \<Rightarrow> string \<Rightarrow> string \<Rightarrow> source_result list \<times> source_call list" where
  "fan_out e ioc_name kind =
     (if kind = ''ip'' then
        (opt_list (lookup_virustotal_ip e ioc_name) @ opt_list (lookup_abuseipdb e ioc_name),
         [VT_ip ioc_name, AbuseIPDB ioc_name])
      else if kind = ''domain'' then
        (opt_list (lookup_virustotal_domain e ioc_name), [VT_domain ioc_name])
      else ([], []))"

text \<open>\<open>str.upper()\<close> on ASCII letters, enough for the kinds that reach it.\<close>

definition upper_char :: "char \<Rightarrow> char" where
  "upper_char c = (let n = (of_char c :: nat)
                   in if 97 \<le> n \<and> n \<le> 122 then char_of (n - 32) else c)"

definition aggregate :: "string \<Rightarrow> string \<Rightarrow> source_result \<Rightarrow> source_result list \<Rightarrow> ioc_data" where
  "aggregate ioc_name kind r rs =
     (let max_score = fold max (map sr_threat_score rs) (sr_threat_score r)
      in \<lparr>ioc_value = ioc_name, ioc_type = kind, threat_score = Some max_score,
          classification = Some (classify_threat_score max_score),
          sources = Some (map sr_source (r # rs)), tags = None,
          source_details = Some (r # rs),
          description = Some (map upper_char kind @ '': '' @ ioc_name)\<rparr>)"

text \<open>The cache test: \<open>cached and (utcnow() - cached['last_seen']).seconds < 3600\<close>.\<close>

definition cache_hit :: "int \<Rightarrow> ioc option \<Rightarrow> bool" where
  "cache_hit now cached =
     (case cached of None \<Rightarrow> False | Some c \<Rightarrow> td_seconds (now - last_seen c) < 3600)"

text \<open>
  \<open>lookup_ioc(ioc, ioc_type)\<close>: \<open>now\<close> is the clock reading of the cache test, \<open>now1\<close>
  and \<open>now2\<close> those of the store. The result carries the returned dictionary, the source
  lookups that were called, and the collection afterwards.
\<close>

definition lookup_ioc ::
  "env \<Rightarrow> int \<Rightarrow> int \<Rightarrow> int \<Rightarrow> string \<Rightarrow> string \<Rightarrow> db \<Rightarrow> pydoc option \<times> source_call list \<times> db" where
  "lookup_ioc e now now1 now2 ioc_name kind s =
     (let cached = get_ioc ioc_name kind s
      in if cache_hit now cached then (map_option Stored cached, [], s)
         else
           (let (results, calls) = fan_out e ioc_name kind
            in case results of
                 [] \<Rightarrow> (None, calls, s)
               | r # rs \<Rightarrow>
                   (let (i, after, s') = store_ioc now1 now2 (aggregate ioc_name kind r rs) s
                    in (Some after, calls, s'))))"

section \<open>One cycle of the monitoring loop (services/realtime\_feeds.py)\<close>

record stats =
  threats_last_hour :: nat
  threats_last_24h :: nat
  active_campaigns :: nat
  new_malware_families :: nat
  compromised_websites :: nat
  botnet_activity :: nat
  current_threat_level :: string

text \<open>The values \<open>random.randint\<close> hands out during one statistics update.\<close>

record draws =
  draw_last_hour :: nat
  draw_last_24h :: nat
  draw_campaigns :: nat
  draw_families :: nat
  draw_websites :: nat
  draw_botnet :: nat

datatype event = New_threat pydoc int | Live_stats_update stats

record monitor =
  mon_db :: db
  live_stats :: stats
  emitted :: "event list"

text \<open>
  What happens to one generated observation: the database call or the socket emit may
  raise. The generated dictionary and the clock readings are inputs.
\<close>

datatype fault = No_fault | Store_raises | Emit_raises

record detection =
  threat_data :: ioc_data
  det_fault :: fault
  clock1 :: int
  clock2 :: int
  clock_emit :: int

datatype completion = Returned | Exception

text \<open>
  \<open>_simulate_threat_detection\<close>: the body of the \<open>for\<close> loop has no handler, so the
  first exception leaves the loop and the function.
\<close>

fun simulate_threat_detection :: "detection list \<Rightarrow> monitor \<Rightarrow> completion \<times> monitor" where
  "simulate_threat_detection [] m = (Returned, m)"
| "simulate_threat_detection (x # xs) m =
     (if det_fault x = Store_raises then (Exception, m)
      else
        (let (i, after, s') = store_ioc (clock1 x) (clock2 x) (threat_data x) (mon_db m);
             m' = m\<lparr>mon_db := s'\<rparr>
         in if det_fault x = Emit_raises then (Exception, m')
            else simulate_threat_detection xs
                   (m'\<lparr>emitted := emitted m' @ [New_threat after (clock_emit x)]\<rparr>)))"

definition count_documents :: "(ioc \<Rightarrow> bool) \<Rightarrow> db \<Rightarrow> nat" where
  "count_documents q s = length (filter q (docs s))"

definition hour :: int where
  "hour = 3600 * 1000000"

text \<open>
  \<open>_update_live_stats\<close>: with its own handler, so a failing count ends in the fallback
  values whichever count failed.
\<close>

definition update_live_stats :: "int \<Rightarrow> bool \<Rightarrow> draws \<Rightarrow> db \<Rightarrow> stats \<Rightarrow> stats" where
  "update_live_stats now counts_raise r s st =
     (if counts_raise then
        st\<lparr>threats_last_hour := draw_last_hour r, threats_last_24h := draw_last_24h r,
           current_threat_level := ''medium'', active_campaigns := draw_campaigns r,
           new_malware_families := draw_families r, compromised_websites := draw_websites r,
           botnet_activity := draw_botnet r\<rparr>
      else
        (let hour_ago = now - hour;
             day_ago = now - 24 * hour;
             critical_count = count_documents
               (\<lambda>d. classification d = Some ''critical'' \<and> timestamp d \<ge> hour_ago) s;
             high_count = count_documents
               (\<lambda>d. classification d = Some ''high'' \<and> timestamp d \<ge> hour_ago) s
         in st\<lparr>threats_last_hour := count_documents (\<lambda>d. timestamp d \<ge> hour_ago) s,
               threats_last_24h := count_documents (\<lambda>d. timestamp d \<ge> day_ago) s,
               current_threat_level :=
                 (if critical_count > 5 then ''critical''
                  else if critical_count > 0 \<or> high_count > 10 then ''high''
                  else if high_count > 0 then ''medium''
                  else ''low''),
               active_campaigns := draw_campaigns r,
               new_malware_families := draw_families r,
               compromised_websites := draw_websites r,
               botnet_activity := draw_botnet r\<rparr>))"

record cycle =
  detections :: "detection list"
  stats_clock :: int
  counts_raise :: bool
  stats_draws :: draws
  broadcast_raises :: bool

text \<open>
  The body of \<open>while self.monitoring\<close> in \<open>_monitor_threats\<close>: one \<open>try\<close> around the
  three steps and the 10 second sleep, 30 seconds in the handler. The result is the time
  slept and the service state.
\<close>

definition monitor_cycle :: "cycle \<Rightarrow> monitor \<Rightarrow> nat \<times> monitor" where
  "monitor_cycle c m =
     (case simulate_threat_detection (detections c) m of
        (Exception, m1) \<Rightarrow> (30, m1)
      | (Returned, m1) \<Rightarrow>
          (let m2 = m1\<lparr>live_stats := update_live_stats (stats_clock c) (counts_raise c)
                                        (stats_draws c) (mon_db m1) (live_stats m1)\<rparr>
           in if broadcast_raises c then (30, m2)
              else (10, m2\<lparr>emitted := emitted m2 @ [Live_stats_update (live_stats m2)]\<rparr>)))"

section \<open>Vocabulary of the theorems\<close>

text \<open>
  An observation in a sequence of stores is the pair of clock readings of its call and the
  dictionary stored. Its score and sources are read as \<open>store_ioc\<close> reads them.
\<close>

definition keyed :: "string \<Rightarrow> string \<Rightarrow> int \<times> int \<times> ioc_data \<Rightarrow> bool" where
  "keyed v t ob \<longleftrightarrow> ioc_value (snd (snd ob)) = v \<and> ioc_type (snd (snd ob)) = t"

definition scored :: "int \<times> int \<times> ioc_data \<Rightarrow> bool" where
  "scored ob \<longleftrightarrow> threat_score (snd (snd ob)) \<noteq> None"

definition obs_score :: "int \<times> int \<times> ioc_data \<Rightarrow> rat" where
  "obs_score ob = dict_get (threat_score (snd (snd ob))) 0"

definition obs_sources :: "int \<times> int \<times> ioc_data \<Rightarrow> string set" where
  "obs_sources ob = set (dict_get (sources (snd (snd ob))) [])"

definition stamp :: "detection \<Rightarrow> int \<times> int \<times> ioc_data" where
  "stamp x = (clock1 x, clock2 x, threat_data x)"

text \<open>The statistics snapshots among the emitted events, in order.\<close>

fun stats_updates :: "event list \<Rightarrow> stats list" where
  "stats_updates [] = []"
| "stats_updates (New_threat p t # es) = stats_updates es"
| "stats_updates (Live_stats_update st # es) = st # stats_updates es"

subsection \<open>Sample inputs\<close>

text \<open>
  Two observations of one address from different sources, two observations of other
  indicators, a source environment in which VirusTotal reports nine detected URLs, and a
  monitoring cycle of three detections whose second one fails in the database call.
\<close>

definition srA :: source_result where
  "srA = \<lparr>sr_source = ''honeypot'', sr_threat_score = 30, sr_classification = ''medium'',
          sr_details = [(''detection_method'', DStr ''behavioral_analysis'')]\<rparr>"

definition srB :: source_result where
  "srB = \<lparr>sr_source = ''dns_sinkhole'', sr_threat_score = 90, sr_classification = ''critical'',
          sr_details = [(''detection_method'', DStr ''dns_analysis'')]\<rparr>"

definition obsA :: ioc_data where
  "obsA = \<lparr>ioc_value = ''198.51.100.7'', ioc_type = ''ip'', threat_score = Some 30,
            classification = Some ''medium'', sources = Some [''honeypot''],
            tags = Some [''malware''], source_details = Some [srA],
            description = Some ''Malicious IP detected by honeypot''\<rparr>"

definition obsB :: ioc_data where
  "obsB = \<lparr>ioc_value = ''198.51.100.7'', ioc_type = ''ip'', threat_score = Some 90,
            classification = Some ''critical'', sources = Some [''dns_sinkhole''],
            tags = Some [''c2''], source_details = Some [srB],
            description = Some ''C2 server detected by dns_sinkhole''\<rparr>"

definition obsC :: ioc_data where
  "obsC = \<lparr>ioc_value = ''203.0.113.9'', ioc_type = ''ip'', threat_score = Some 88,
            classification = Some ''critical'', sources = Some [''network_monitor''],
            tags = Some [''botnet'', ''c2_communication''], source_details = None,
            description = Some ''Botnet C2 server detected by network_monitor''\<rparr>"

definition obsD :: ioc_data where
  "obsD = \<lparr>ioc_value = ''secure-bank77.tk'', ioc_type = ''domain'', threat_score = Some 85,
            classification = Some ''medium'', sources = Some [''email_filter''],
            tags = Some [''phishing'', ''credential_theft''], source_details = None,
            description = Some ''Phishing domain detected by email_filter''\<rparr>"

definition envA :: env where
  "envA = \<lparr>vt_api_key = Some ''key'', abuseipdb_key = None,
           vt_ip_get = (\<lambda>ip. Response 200
             \<lparr>response_code = Some 1,
              detected_urls = Some [''u1'', ''u2'', ''u3'', ''u4'', ''u5'', ''u6'', ''u7'', ''u8'', ''u9''],
              country = Some ''DE'', as_owner = None, categories = None\<rparr>),
           vt_domain_get = (\<lambda>d. Raised),
           abuseipdb_get = (\<lambda>ip. Raised)\<rparr>"

definition statsA :: stats where
  "statsA = \<lparr>threats_last_hour = 0, threats_last_24h = 0, active_campaigns = 0,
             new_malware_families = 0, compromised_websites = 0, botnet_activity = 0,
             current_threat_level = ''medium''\<rparr>"

definition drawsA :: draws where
  "drawsA = \<lparr>draw_last_hour = 7, draw_last_24h = 60, draw_campaigns = 12, draw_families = 1,
             draw_websites = 20, draw_botnet = 5\<rparr>"

definition monA :: monitor where
  "monA = \<lparr>mon_db = empty_db, live_stats = statsA, emitted = []\<rparr>"

definition cycleA :: cycle where
  "cycleA = \<lparr>detections =
               [\<lparr>threat_data = obsA, det_fault = No_fault, clock1 = 1, clock2 = 2, clock_emit = 3\<rparr>,
                \<lparr>threat_data = obsC, det_fault = Store_raises, clock1 = 4, clock2 = 5, clock_emit = 6\<rparr>,
                \<lparr>threat_data = obsD, det_fault = No_fault, clock1 = 7, clock2 = 8, clock_emit = 9\<rparr>],
              stats_clock = 10, counts_raise = False, stats_draws = drawsA,
              broadcast_raises = False\<rparr>"

section \<open>Classification\<close>

text \<open>
  Claim C6. The tiers of \<open>_classify_threat_score\<close> have inclusive lower bounds: a score of
  at least 80 is critical, from 60 up to but not including 80 high, from 30 up to but not
  including 60 medium, above 0 and below 30 low, and exactly 0 clean; the scores
  0, 1, 29, 30, 59, 60, 79, 80, 100 give clean, low, low, medium, medium, high, high,
  critical, critical.
\<close>

theorem classify_boundaries:
  "(80 \<le> s \<longrightarrow> classify_threat_score s = ''critical'') \<and>
   (60 \<le> s \<and> s < 80 \<longrightarrow> classify_threat_score s = ''high'') \<and>
   (30 \<le> s \<and> s < 60 \<longrightarrow> classify_threat_score s = ''medium'') \<and>
   (0 < s \<and> s < 30 \<longrightarrow> classify_threat_score s = ''low'') \<and>
   (s = 0 \<longrightarrow> classify_threat_score s = ''clean'') \<and>
   map classify_threat_score [0, 1, 29, 30, 59, 60, 79, 80, 100] =
     [''clean'', ''low'', ''low'', ''medium'', ''medium'', ''high'', ''high'',
      ''critical'', ''critical'']"
  by (simp add: classify_threat_score_def)

theorem classify_boundaries_witness:
  "(80::rat) \<le> 95 \<and> classify_threat_score 95 = ''critical'' \<and>
   (60::rat) \<le> 79 \<and> (79::rat) < 80 \<and> classify_threat_score 79 = ''high'' \<and>
   (30::rat) \<le> 45 \<and> (45::rat) < 60 \<and> classify_threat_score 45 = ''medium'' \<and>
   (0::rat) < 1/2 \<and> (1/2::rat) < 30 \<and> classify_threat_score (1/2) = ''low'' \<and>
   classify_threat_score 0 = ''clean''"
  using classify_boundaries [of 95] classify_boundaries [of 79] classify_boundaries [of 45]
    classify_boundaries [of "1/2"] classify_boundaries [of 0]
  by simp

text \<open>
  Claim C10. \<open>_classify_threat_score\<close> returns one of the five tiers for every number;
  every score less than or equal to 0 is clean, and a negative score does reach it, since
  \<open>normalize_threat_score\<close> returns a negative number unchanged.
\<close>

theorem classify_total:
  "classify_threat_score s \<in> {''critical'', ''high'', ''medium'', ''low'', ''clean''} \<and>
   (s \<le> 0 \<longrightarrow> classify_threat_score s = ''clean'') \<and>
   (s < 0 \<longrightarrow> normalize_threat_score src (Num s) = Inr s \<and>
              classify_threat_score s = ''clean'')"
  by (simp add: classify_threat_score_def normalize_threat_score_def)

theorem classify_total_witness:
  "(-7::rat) \<le> 0 \<and> (-7::rat) < 0 \<and>
   normalize_threat_score ''abuseipdb'' (Num (-7)) = Inr (-7) \<and>
   classify_threat_score (-7) = ''clean'' \<and> classify_threat_score 0 = ''clean''"
  using classify_total [of "-7" "''abuseipdb''"] classify_total [of 0 "''abuseipdb''"]
  by simp

section \<open>Normalisation\<close>

text \<open>\<open>bit_length\<close> follows the binary digits of a literal.\<close>

lemma bit_length_numeral:
  "bit_length 0 = 0"
  "bit_length 1 = 1"
  "bit_length (numeral (Num.Bit0 n)) = Suc (bit_length (numeral n))"
  "bit_length (numeral (Num.Bit1 n)) = Suc (bit_length (numeral n))"
proof -
  show "bit_length 0 = 0" by (simp add: bit_length.simps)
  show "bit_length 1 = 1" by (simp add: bit_length.simps)
  show "bit_length (numeral (Num.Bit0 n)) = Suc (bit_length (numeral n))"
    by (subst bit_length.simps) simp
  show "bit_length (numeral (Num.Bit1 n)) = Suc (bit_length (numeral n))"
    by (subst bit_length.simps) simp
qed

lemmas float_eval = float_div_def float_mul_def finite_double_def round_double_def
  round_half_even_def double_val_def pow2_def bit_length_numeral Let_def

text \<open>
  The float arithmetic at sample points, with the values Python prints for them:
  \<open>7/25*100 = 28.000000000000004\<close>, \<open>1/3*100 = 33.33333333333333\<close>,
  \<open>3/10*100 = 30.0\<close> and \<open>5/3*100 = 166.66666666666669\<close>, which \<open>min\<close> cuts to 100.
\<close>

lemma normalize_samples:
  "normalize_threat_score ''virustotal'' (Dict (Some 7) (Some 25))
     = Inr (7881299347898369 / 281474976710656)"
  "normalize_threat_score ''virustotal'' (Dict (Some 1) (Some 3))
     = Inr (2345624805922133 / 70368744177664)"
  "normalize_threat_score ''virustotal'' (Dict (Some 3) (Some 10)) = Inr 30"
  "normalize_threat_score ''virustotal'' (Dict (Some 5) (Some 3)) = Inr 100"
  by (simp_all add: normalize_threat_score_def dict_get_def float_eval)

text \<open>\<open>10**309 / 1\<close> raises OverflowError: the quotient is too large for a float.\<close>

lemma normalize_overflow:
  "normalize_threat_score ''virustotal'' (Dict (Some (10 ^ 309)) (Some 1)) = Inl OverflowError"
  by (simp add: normalize_threat_score_def dict_get_def float_eval)

text \<open>\<open>(10**307 / 1) * 100\<close> is \<open>inf\<close>, and \<open>min(100, inf)\<close> is 100.\<close>

lemma normalize_infinite_product:
  "normalize_threat_score ''virustotal'' (Dict (Some (10 ^ 307)) (Some 1)) = Inr 100"
  by (simp add: normalize_threat_score_def dict_get_def float_eval)






section \<open>The collection under \<open>store_ioc\<close>\<close>

lemma update_one_map_oid:
  "(\<And>d. oid (f d) = oid d) \<Longrightarrow> map oid (update_one i f ds) = map oid ds"
  by (induction ds) auto

lemma update_one_list_all:
  "(\<And>d. Q d \<Longrightarrow> Q (f d)) \<Longrightarrow> list_all Q ds \<Longrightarrow> list_all Q (update_one i f ds)"
  by (induction ds) auto

lemma find_Some_mem: "find P ds = Some e \<Longrightarrow> e \<in> set ds \<and> P e"
  by (induction ds) (auto split: if_splits)

lemma find_update_one:
  assumes "distinct (map oid ds)" "find P ds = Some e" "\<And>d. P (f d) = P d"
  shows "find P (update_one (oid e) f ds) = Some (f e)"
  using assms(1,2)
proof (induction ds)
  case Nil
  then show ?case by simp
next
  case (Cons d ds)
  show ?case
  proof (cases "P d")
    case True
    with Cons.prems have "d = e" by simp
    with True show ?thesis by (simp add: assms(3))
  next
    case False
    with Cons.prems have fe: "find P ds = Some e" by simp
    then have "e \<in> set ds" by (simp add: find_Some_mem)
    with Cons.prems(1) have "oid d \<noteq> oid e" by auto
    with False fe Cons show ?thesis by (simp add: assms(3))
  qed
qed

lemma find_update_one_other:
  "(\<And>d. P (f d) = P d) \<Longrightarrow> (\<And>d. P d \<Longrightarrow> oid d \<noteq> i) \<Longrightarrow> find P (update_one i f ds) = find P ds"
  by (induction ds) auto

lemma filter_update_one_length:
  "(\<And>d. P (f d) = P d) \<Longrightarrow> length (filter P (update_one i f ds)) = length (filter P ds)"
  by (induction ds) auto

lemma has_key_merge_update [simp]: "has_key v t (merge_update now e x d) = has_key v t d"
  by (simp add: has_key_def merge_update_def)

lemma oid_merge_update [simp]: "oid (merge_update now e x d) = oid d"
  by (simp add: merge_update_def)

lemma has_key_new_doc [simp]: "has_key v t (new_doc i n1 n2 x) \<longleftrightarrow> ioc_value x = v \<and> ioc_type x = t"
  by (simp add: has_key_def new_doc_def)

lemma oid_new_doc [simp]: "oid (new_doc i n1 n2 x) = i"
  by (simp add: new_doc_def)

lemma store_ioc_wf: "wf_db s \<Longrightarrow> wf_db (snd (snd (store_ioc n1 n2 x s)))"
proof (cases "find_one (ioc_value x) (ioc_type x) s")
  case None
  assume "wf_db s"
  with None show ?thesis
    by (auto simp: wf_db_def store_ioc_def Let_def list_all_iff less_Suc_eq)
next
  case (Some e)
  assume wf: "wf_db s"
  have "list_all (\<lambda>d. oid d < next_id s) (update_one (oid e) (merge_update n1 e x) (docs s))"
    using wf by (intro update_one_list_all) (simp_all add: wf_db_def)
  with wf Some show ?thesis
    by (simp add: wf_db_def store_ioc_def update_one_map_oid)
qed

lemma find_append_None:
  "find P ds = None \<Longrightarrow> find P (ds @ [d]) = (if P d then Some d else None)"
  by (induction ds) (auto split: if_splits)

lemma filter_find_None: "find P ds = None \<Longrightarrow> filter P ds = []"
  by (induction ds) (auto split: if_splits)

lemma store_ioc_insert:
  assumes "find_one (ioc_value x) (ioc_type x) s = None"
  shows "find_one (ioc_value x) (ioc_type x) (snd (snd (store_ioc n1 n2 x s)))
           = Some (new_doc (next_id s) n1 n2 x)"
    and "key_count (ioc_value x) (ioc_type x) (snd (snd (store_ioc n1 n2 x s))) = 1"
    and "fst (store_ioc n1 n2 x s) = next_id s"
proof -
  have st: "store_ioc n1 n2 x s =
      (next_id s, Stored (new_doc (next_id s) n1 n2 x),
       \<lparr>docs = docs s @ [new_doc (next_id s) n1 n2 x], next_id = Suc (next_id s)\<rparr>)"
    using assms by (simp add: store_ioc_def Let_def)
  have fn: "find (has_key (ioc_value x) (ioc_type x)) (docs s) = None"
    using assms by (simp only: find_one_def)
  show "find_one (ioc_value x) (ioc_type x) (snd (snd (store_ioc n1 n2 x s)))
           = Some (new_doc (next_id s) n1 n2 x)"
    by (simp add: st find_one_def find_append_None[OF fn])
  show "key_count (ioc_value x) (ioc_type x) (snd (snd (store_ioc n1 n2 x s))) = 1"
    by (simp add: st key_count_def filter_find_None[OF fn])
  show "fst (store_ioc n1 n2 x s) = next_id s"
    by (simp add: st)
qed

lemma store_ioc_merge:
  assumes "wf_db s" "find_one (ioc_value x) (ioc_type x) s = Some e"
  shows "find_one (ioc_value x) (ioc_type x) (snd (snd (store_ioc n1 n2 x s)))
           = Some (merge_update n1 e x e)"
    and "key_count (ioc_value x) (ioc_type x) (snd (snd (store_ioc n1 n2 x s)))
           = key_count (ioc_value x) (ioc_type x) s"
    and "fst (store_ioc n1 n2 x s) = oid e"
proof -
  have st: "store_ioc n1 n2 x s =
      (oid e, Plain x, s\<lparr>docs := update_one (oid e) (merge_update n1 e x) (docs s)\<rparr>)"
    using assms(2) by (simp add: store_ioc_def)
  have fn: "find (has_key (ioc_value x) (ioc_type x)) (docs s) = Some e"
    using assms(2) by (simp only: find_one_def)
  have di: "distinct (map oid (docs s))"
    using assms(1) by (simp add: wf_db_def)
  show "find_one (ioc_value x) (ioc_type x) (snd (snd (store_ioc n1 n2 x s)))
           = Some (merge_update n1 e x e)"
    by (simp add: st find_one_def find_update_one[OF di fn])
  show "key_count (ioc_value x) (ioc_type x) (snd (snd (store_ioc n1 n2 x s)))
           = key_count (ioc_value x) (ioc_type x) s"
    by (simp add: st key_count_def filter_update_one_length)
  show "fst (store_ioc n1 n2 x s) = oid e"
    by (simp add: st)
qed


lemma new_doc_fields [simp]:
  "threat_score (new_doc i n1 n2 x) = threat_score x"
  "sources (new_doc i n1 n2 x) = sources x"
  "classification (new_doc i n1 n2 x) = classification x"
  "tags (new_doc i n1 n2 x) = Some (dict_get (tags x) [])"
  "source_details (new_doc i n1 n2 x) = source_details x"
  "description (new_doc i n1 n2 x) = description x"
  "timestamp (new_doc i n1 n2 x) = n1"
  "last_seen (new_doc i n1 n2 x) = n2"
  by (simp_all add: new_doc_def)

lemma merge_update_fields [simp]:
  "threat_score (merge_update now e x d) =
     Some (max (dict_get (threat_score e) 0) (dict_get (threat_score x) 0))"
  "sources (merge_update now e x d) =
     Some (remdups (dict_get (sources e) [] @ dict_get (sources x) []))"
  "last_seen (merge_update now e x d) = now"
  "classification (merge_update now e x d) = classification d"
  "tags (merge_update now e x d) = tags d"
  "source_details (merge_update now e x d) = source_details d"
  "description (merge_update now e x d) = description d"
  "timestamp (merge_update now e x d) = timestamp d"
  "ioc_value (merge_update now e x d) = ioc_value d"
  "ioc_type (merge_update now e x d) = ioc_type d"
  by (simp_all add: merge_update_def)

lemma dict_get_Some [simp]: "dict_get (Some v) d = v"
  by (simp add: dict_get_def)

lemma dict_get_None [simp]: "dict_get None d = d"
  by (simp add: dict_get_def)

text \<open>Storing a run of observations of one key into a collection that has the key.\<close>

lemma store_all_present:
  assumes "wf_db s" "find_one v t s = Some e" "list_all (keyed v t) xs"
  shows "\<exists>d. find_one v t (store_all xs s) = Some d \<and> oid d = oid e \<and>
           dict_get (threat_score d) 0 = fold max (map obs_score xs) (dict_get (threat_score e) 0) \<and>
           (threat_score e \<noteq> None \<or> xs \<noteq> [] \<longrightarrow> threat_score d \<noteq> None) \<and>
           set (dict_get (sources d) []) = set (dict_get (sources e) []) \<union> \<Union> (obs_sources ` set xs) \<and>
           key_count v t (store_all xs s) = key_count v t s \<and>
           wf_db (store_all xs s)"
  using assms
proof (induction xs arbitrary: s e)
  case Nil
  then show ?case by simp
next
  case (Cons ob xs)
  obtain n1 n2 x where ob: "ob = (n1, n2, x)" by (cases ob) auto
  from Cons.prems(3) have hd: "keyed v t ob" and rest: "list_all (keyed v t) xs"
    by simp_all
  from hd ob have kx: "ioc_value x = v" "ioc_type x = t"
    by (simp_all add: keyed_def)
  let ?s1 = "snd (snd (store_ioc n1 n2 x s))"
  let ?e1 = "merge_update n1 e x e"
  from Cons.prems(1,2) kx have f1: "find_one v t ?s1 = Some ?e1"
    and k1: "key_count v t ?s1 = key_count v t s"
    using store_ioc_merge [of s x e n1 n2] by simp_all
  have w1: "wf_db ?s1" using Cons.prems(1) by (rule store_ioc_wf)
  from Cons.IH [OF w1 f1 rest] obtain d where
    d: "find_one v t (store_all xs ?s1) = Some d" "oid d = oid ?e1"
      "dict_get (threat_score d) 0 = fold max (map obs_score xs) (dict_get (threat_score ?e1) 0)"
      "threat_score ?e1 \<noteq> None \<or> xs \<noteq> [] \<longrightarrow> threat_score d \<noteq> None"
      "set (dict_get (sources d) []) = set (dict_get (sources ?e1) []) \<union> \<Union> (obs_sources ` set xs)"
      "key_count v t (store_all xs ?s1) = key_count v t ?s1"
      "wf_db (store_all xs ?s1)"
    by blast
  have sc: "obs_score ob = dict_get (threat_score x) 0"
    and so: "obs_sources ob = set (dict_get (sources x) [])"
    by (simp_all add: ob obs_score_def obs_sources_def)
  have "find_one v t (store_all (ob # xs) s) = Some d"
    using d(1) by (simp add: ob)
  moreover have "oid d = oid e"
    using d(2) by simp
  moreover have "dict_get (threat_score d) 0 =
      fold max (map obs_score (ob # xs)) (dict_get (threat_score e) 0)"
    using d(3) by (simp add: sc max.commute)
  moreover have "threat_score d \<noteq> None"
    using d(4) by simp
  moreover have "set (dict_get (sources d) []) =
      set (dict_get (sources e) []) \<union> \<Union> (obs_sources ` set (ob # xs))"
    using d(5) by (simp add: so Un_assoc)
  moreover have "key_count v t (store_all (ob # xs) s) = key_count v t s"
    using d(6) k1 by (simp add: ob)
  moreover have "wf_db (store_all (ob # xs) s)"
    using d(7) by (simp add: ob)
  ultimately show ?case by blast
qed

lemma store_all_absent:
  assumes "wf_db s" "find_one v t s = None" "list_all (keyed v t) (ob # xs)"
  shows "\<exists>d. find_one v t (store_all (ob # xs) s) = Some d \<and> oid d = next_id s \<and>
           dict_get (threat_score d) 0 = fold max (map obs_score xs) (obs_score ob) \<and>
           (scored ob \<longrightarrow> threat_score d \<noteq> None) \<and>
           set (dict_get (sources d) []) = \<Union> (obs_sources ` set (ob # xs)) \<and>
           key_count v t (store_all (ob # xs) s) = 1"
proof -
  obtain n1 n2 x where ob: "ob = (n1, n2, x)" by (cases ob) auto
  from assms(3) have hd: "keyed v t ob" and rest: "list_all (keyed v t) xs"
    by simp_all
  from hd ob have kx: "ioc_value x = v" "ioc_type x = t"
    by (simp_all add: keyed_def)
  let ?s1 = "snd (snd (store_ioc n1 n2 x s))"
  let ?e1 = "new_doc (next_id s) n1 n2 x"
  from assms(2) kx have f1: "find_one v t ?s1 = Some ?e1" and k1: "key_count v t ?s1 = 1"
    using store_ioc_insert [of x s n1 n2] by simp_all
  have w1: "wf_db ?s1" using assms(1) by (rule store_ioc_wf)
  from store_all_present [OF w1 f1 rest] obtain d where
    d: "find_one v t (store_all xs ?s1) = Some d" "oid d = oid ?e1"
      "dict_get (threat_score d) 0 = fold max (map obs_score xs) (dict_get (threat_score ?e1) 0)"
      "threat_score ?e1 \<noteq> None \<or> xs \<noteq> [] \<longrightarrow> threat_score d \<noteq> None"
      "set (dict_get (sources d) []) = set (dict_get (sources ?e1) []) \<union> \<Union> (obs_sources ` set xs)"
      "key_count v t (store_all xs ?s1) = key_count v t ?s1"
    by blast
  have sc: "obs_score ob = dict_get (threat_score x) 0"
    and so: "obs_sources ob = set (dict_get (sources x) [])"
    and sd: "scored ob \<longleftrightarrow> threat_score x \<noteq> None"
    by (simp_all add: ob obs_score_def obs_sources_def scored_def)
  have "find_one v t (store_all (ob # xs) s) = Some d"
    using d(1) by (simp add: ob)
  moreover have "oid d = next_id s"
    using d(2) by simp
  moreover have "dict_get (threat_score d) 0 = fold max (map obs_score xs) (obs_score ob)"
    using d(3) by (simp add: sc)
  moreover have "scored ob \<longrightarrow> threat_score d \<noteq> None"
    using d(4) by (simp add: sd)
  moreover have "set (dict_get (sources d) []) = \<Union> (obs_sources ` set (ob # xs))"
    using d(5) by (simp add: so)
  moreover have "key_count v t (store_all (ob # xs) s) = 1"
    using d(6) k1 by (simp add: ob)
  ultimately show ?thesis by blast
qed

lemma store_all_max:
  assumes "wf_db s" "find_one v t s = None" "xs \<noteq> []" "list_all (keyed v t) xs"
    "list_all scored xs"
  shows "\<exists>d. find_one v t (store_all xs s) = Some d \<and>
           threat_score d = Some (Max (obs_score ` set xs))"
proof -
  from assms(3) obtain ob ys where xs: "xs = ob # ys" by (cases xs) auto
  from store_all_absent [OF assms(1,2) assms(4) [unfolded xs]] obtain d where
    d: "find_one v t (store_all (ob # ys) s) = Some d"
      "dict_get (threat_score d) 0 = fold max (map obs_score ys) (obs_score ob)"
      "scored ob \<longrightarrow> threat_score d \<noteq> None"
    by blast
  have "fold max (map obs_score ys) (obs_score ob) = Max (set (map obs_score (ob # ys)))"
    by (simp only: list.map Max.set_eq_fold)
  moreover from assms(5) xs d(3) obtain sc where "threat_score d = Some sc" by auto
  ultimately show ?thesis using d(1,2) xs by auto
qed

lemma wf_empty_db: "wf_db empty_db"
  by (simp add: wf_db_def empty_db_def)

lemma find_one_empty_db: "find_one v t empty_db = None"
  by (simp add: find_one_def empty_db_def)

lemma length_update_one [simp]: "length (update_one i f ds) = length ds"
  by (induction ds) auto

lemma find_oid_update_one:
  "(\<And>d. oid (f d) = oid d) \<Longrightarrow>
   find (\<lambda>d. oid d = i) (update_one i f ds) = map_option f (find (\<lambda>d. oid d = i) ds)"
  by (induction ds) auto

lemma store_ioc_key_count_le:
  assumes "key_count v t s \<le> 1"
  shows "key_count v t (snd (snd (store_ioc n1 n2 x s))) \<le> 1"
proof (cases "find_one (ioc_value x) (ioc_type x) s")
  case None
  then have fn: "find (has_key (ioc_value x) (ioc_type x)) (docs s) = None"
    by (simp only: find_one_def)
  have st: "snd (snd (store_ioc n1 n2 x s)) =
      \<lparr>docs = docs s @ [new_doc (next_id s) n1 n2 x], next_id = Suc (next_id s)\<rparr>"
    using None by (simp add: store_ioc_def Let_def)
  show ?thesis
  proof (cases "ioc_value x = v \<and> ioc_type x = t")
    case True
    with fn have "filter (has_key v t) (docs s) = []"
      using filter_find_None by blast
    with True show ?thesis by (simp add: st key_count_def)
  next
    case False
    with assms show ?thesis by (auto simp add: st key_count_def)
  qed
next
  case (Some e)
  then have st: "snd (snd (store_ioc n1 n2 x s)) =
      s\<lparr>docs := update_one (oid e) (merge_update n1 e x) (docs s)\<rparr>"
    by (simp add: store_ioc_def)
  with assms show ?thesis
    by (simp add: key_count_def filter_update_one_length)
qed

lemma store_all_append: "store_all (xs @ ys) s = store_all ys (store_all xs s)"
  by (induction xs s rule: store_all.induct) auto

section \<open>Merging observations of one indicator\<close>

text \<open>
  Claim C1. From a collection without the key, storing any non-empty sequence of scored
  observations of one \<open>(value, type)\<close> leaves the record of that key with the maximum of
  their scores; every rearrangement of the sequence ends with the same score; and a single
  merge sets the score to the maximum of the stored and the incoming one, never below the
  stored one.
\<close>

theorem merge_monotonicity:
  assumes "wf_db s" and "find_one v t s = None" and "xs \<noteq> []"
    and "list_all (keyed v t) xs" and "list_all scored xs"
  shows "(\<exists>d. find_one v t (store_all xs s) = Some d \<and>
              threat_score d = Some (Max (obs_score ` set xs))) \<and>
         (\<forall>ys. mset ys = mset xs \<longrightarrow>
            (\<exists>d. find_one v t (store_all ys s) = Some d \<and>
                 threat_score d = Some (Max (obs_score ` set xs)))) \<and>
         (\<forall>s' e n1 n2 x.
            wf_db s' \<and> find_one (ioc_value x) (ioc_type x) s' = Some e \<longrightarrow>
            (\<exists>d. find_one (ioc_value x) (ioc_type x) (snd (snd (store_ioc n1 n2 x s'))) = Some d \<and>
                 threat_score d = Some (max (dict_get (threat_score e) 0)
                                            (dict_get (threat_score x) 0)) \<and>
                 dict_get (threat_score e) 0 \<le> dict_get (threat_score d) 0))"
proof (intro conjI allI impI)
  show "\<exists>d. find_one v t (store_all xs s) = Some d \<and>
            threat_score d = Some (Max (obs_score ` set xs))"
    using assms by (rule store_all_max)
next
  fix ys assume p: "mset ys = mset xs"
  then have se: "set ys = set xs" by (rule mset_eq_setD)
  with assms(3) have ne: "ys \<noteq> []" by auto
  from se assms(4,5) have "list_all (keyed v t) ys" "list_all scored ys"
    by (simp_all add: list_all_iff)
  from store_all_max [OF assms(1,2) ne this] se
  show "\<exists>d. find_one v t (store_all ys s) = Some d \<and>
            threat_score d = Some (Max (obs_score ` set xs))"
    by simp
next
  fix s' :: db and e :: ioc and n1 n2 :: int and x :: ioc_data
  assume h: "wf_db s' \<and> find_one (ioc_value x) (ioc_type x) s' = Some e"
  then have "find_one (ioc_value x) (ioc_type x) (snd (snd (store_ioc n1 n2 x s')))
      = Some (merge_update n1 e x e)"
    using store_ioc_merge(1) [of s' x e n1 n2] by simp
  then show "\<exists>d. find_one (ioc_value x) (ioc_type x) (snd (snd (store_ioc n1 n2 x s'))) = Some d \<and>
                 threat_score d = Some (max (dict_get (threat_score e) 0)
                                            (dict_get (threat_score x) 0)) \<and>
                 dict_get (threat_score e) 0 \<le> dict_get (threat_score d) 0"
    by simp
qed

theorem merge_monotonicity_witness:
  "wf_db empty_db \<and> find_one ''198.51.100.7'' ''ip'' empty_db = None \<and>
   (\<exists>d. find_one ''198.51.100.7'' ''ip''
          (store_all [(1, 2, obsA), (3, 4, obsA\<lparr>threat_score := Some 90\<rparr>),
                      (5, 6, obsA\<lparr>threat_score := Some 55\<rparr>)] empty_db) = Some d \<and>
        threat_score d = Some 90) \<and>
   (\<exists>d. find_one ''198.51.100.7'' ''ip''
          (store_all [(3, 4, obsA\<lparr>threat_score := Some 90\<rparr>),
                      (5, 6, obsA\<lparr>threat_score := Some 55\<rparr>), (1, 2, obsA)] empty_db) = Some d \<and>
        threat_score d = Some 90)"
proof -
  let ?xs = "[(1::int, 2::int, obsA), (3, 4, obsA\<lparr>threat_score := Some 90\<rparr>),
              (5, 6, obsA\<lparr>threat_score := Some 55\<rparr>)]"
  let ?ys = "[(3::int, 4::int, obsA\<lparr>threat_score := Some 90\<rparr>),
              (5, 6, obsA\<lparr>threat_score := Some 55\<rparr>), (1, 2, obsA)]"
  have k: "list_all (keyed ''198.51.100.7'' ''ip'') ?xs"
    by (simp add: keyed_def obsA_def)
  have sc: "list_all scored ?xs"
    by (simp add: scored_def obsA_def)
  have mx: "Max (obs_score ` set ?xs) = 90"
    by (simp add: obs_score_def obsA_def)
  have pm: "mset ?ys = mset ?xs"
    by (simp add: add.commute)
  note th = merge_monotonicity [OF wf_empty_db find_one_empty_db _ k sc, simplified mx]
  from th have a: "\<exists>d. find_one ''198.51.100.7'' ''ip'' (store_all ?xs empty_db) = Some d \<and>
        threat_score d = Some 90"
    by simp
  from th pm have b: "\<exists>d. find_one ''198.51.100.7'' ''ip'' (store_all ?ys empty_db) = Some d \<and>
        threat_score d = Some 90"
    by blast
  from a b show ?thesis
    by (simp add: wf_empty_db find_one_empty_db)
qed

text \<open>
  Claim C2. Two observations with the same \<open>(value, type)\<close> give one record: the second
  store returns the id of the first and adds no document, and the record's sources are the
  union of the sources of both. The same holds for every non-empty sequence of observations
  of the key, and no store ever raises the number of records of a key above one.
\<close>

theorem store_ioc_uniqueness:
  assumes "wf_db s" and "find_one v t s = None"
    and "ioc_value a = v" and "ioc_type a = t" and "ioc_value b = v" and "ioc_type b = t"
  shows "fst (store_ioc n1 n2 b (snd (snd (store_ioc m1 m2 a s)))) = fst (store_ioc m1 m2 a s) \<and>
         length (docs (store_all [(m1, m2, a), (n1, n2, b)] s)) =
           length (docs (store_all [(m1, m2, a)] s)) \<and>
         key_count v t (store_all [(m1, m2, a), (n1, n2, b)] s) = 1 \<and>
         (\<exists>d. find_one v t (store_all [(m1, m2, a), (n1, n2, b)] s) = Some d \<and>
              set (dict_get (sources d) []) =
                set (dict_get (sources a) []) \<union> set (dict_get (sources b) [])) \<and>
         (\<forall>xs. xs \<noteq> [] \<and> list_all (keyed v t) xs \<longrightarrow>
            key_count v t (store_all xs s) = 1 \<and>
            (\<exists>d. find_one v t (store_all xs s) = Some d \<and>
                 set (dict_get (sources d) []) = \<Union> (obs_sources ` set xs))) \<and>
         (\<forall>v' t' k1 k2 x s'.
            key_count v' t' s' \<le> 1 \<longrightarrow> key_count v' t' (snd (snd (store_ioc k1 k2 x s'))) \<le> 1)"
proof -
  let ?s1 = "snd (snd (store_ioc m1 m2 a s))"
  let ?d1 = "new_doc (next_id s) m1 m2 a"
  have f1: "find_one v t ?s1 = Some ?d1" and i1: "fst (store_ioc m1 m2 a s) = next_id s"
    using store_ioc_insert [of a s m1 m2] assms(2,3,4) by simp_all
  have w1: "wf_db ?s1" using assms(1) by (rule store_ioc_wf)
  have fb: "find_one (ioc_value b) (ioc_type b) ?s1 = Some ?d1"
    using f1 assms(5,6) by simp
  have i2: "fst (store_ioc n1 n2 b ?s1) = next_id s"
    using store_ioc_merge(3) [OF w1 fb] by simp
  have st2: "snd (snd (store_ioc n1 n2 b ?s1)) =
      ?s1\<lparr>docs := update_one (oid ?d1) (merge_update n1 ?d1 b) (docs ?s1)\<rparr>"
    using fb by (simp add: store_ioc_def)
  have len: "length (docs (store_all [(m1, m2, a), (n1, n2, b)] s)) =
           length (docs (store_all [(m1, m2, a)] s))"
    by (simp add: st2)
  have seq: "\<And>xs. xs \<noteq> [] \<Longrightarrow> list_all (keyed v t) xs \<Longrightarrow>
            key_count v t (store_all xs s) = 1 \<and>
            (\<exists>d. find_one v t (store_all xs s) = Some d \<and>
                 set (dict_get (sources d) []) = \<Union> (obs_sources ` set xs))"
  proof -
    fix xs :: "(int \<times> int \<times> ioc_data) list"
    assume "xs \<noteq> []" and k: "list_all (keyed v t) xs"
    then obtain ob ys where xs: "xs = ob # ys" by (cases xs) auto
    from store_all_absent [OF assms(1,2) k [unfolded xs]] xs
    show "key_count v t (store_all xs s) = 1 \<and>
            (\<exists>d. find_one v t (store_all xs s) = Some d \<and>
                 set (dict_get (sources d) []) = \<Union> (obs_sources ` set xs))"
      by blast
  qed
  have two: "list_all (keyed v t) [(m1, m2, a), (n1, n2, b)]"
    using assms(3-6) by (simp add: keyed_def)
  from seq [OF _ two]
  have kc: "key_count v t (store_all [(m1, m2, a), (n1, n2, b)] s) = 1"
    and so: "\<exists>d. find_one v t (store_all [(m1, m2, a), (n1, n2, b)] s) = Some d \<and>
              set (dict_get (sources d) []) =
                set (dict_get (sources a) []) \<union> set (dict_get (sources b) [])"
    by (simp_all add: obs_sources_def)
  show ?thesis
    using i1 i2 len kc so seq store_ioc_key_count_le by (intro conjI allI impI) auto
qed

theorem store_ioc_uniqueness_witness:
  "wf_db empty_db \<and> find_one ''198.51.100.7'' ''ip'' empty_db = None \<and>
   ioc_value obsA = ''198.51.100.7'' \<and> ioc_type obsA = ''ip'' \<and>
   ioc_value obsB = ''198.51.100.7'' \<and> ioc_type obsB = ''ip'' \<and>
   fst (store_ioc 3 4 obsB (snd (snd (store_ioc 1 2 obsA empty_db)))) =
     fst (store_ioc 1 2 obsA empty_db) \<and>
   key_count ''198.51.100.7'' ''ip'' (store_all [(1, 2, obsA), (3, 4, obsB)] empty_db) = 1 \<and>
   (\<exists>d. find_one ''198.51.100.7'' ''ip'' (store_all [(1, 2, obsA), (3, 4, obsB)] empty_db) = Some d \<and>
        set (dict_get (sources d) []) = {''honeypot'', ''dns_sinkhole''})"
proof -
  have k: "ioc_value obsA = ''198.51.100.7''" "ioc_type obsA = ''ip''"
    "ioc_value obsB = ''198.51.100.7''" "ioc_type obsB = ''ip''"
    by (simp_all add: obsA_def obsB_def)
  have so: "set (dict_get (sources obsA) []) \<union> set (dict_get (sources obsB) []) =
      {''honeypot'', ''dns_sinkhole''}"
    by (auto simp add: obsA_def obsB_def)
  from store_ioc_uniqueness [OF wf_empty_db find_one_empty_db k, of 3 4 1 2]
  show ?thesis
    by (simp only: so k wf_empty_db find_one_empty_db simp_thms)
qed

text \<open>
  Claim C4, as stated, fails: after storing an observation tagged \<open>c2\<close> with its own
  source snapshot over a record tagged \<open>malware\<close>, the record still has the tag
  \<open>malware\<close> only and the one source snapshot it was created with.
\<close>

theorem merge_keeps_tags_and_details:
  "map_option tags (find_one ''198.51.100.7'' ''ip''
      (store_all [(1, 2, obsA), (3, 4, obsB)] empty_db)) = Some (Some [''malware'']) \<and>
   tags obsB = Some [''c2''] \<and>
   map_option source_details (find_one ''198.51.100.7'' ''ip''
      (store_all [(1, 2, obsA), (3, 4, obsB)] empty_db)) = Some (Some [srA]) \<and>
   source_details obsB = Some [srB] \<and> srB \<noteq> srA"
  by (simp add: store_ioc_def find_one_def has_key_def empty_db_def new_doc_def merge_update_def
      obsA_def obsB_def srA_def srB_def Let_def)

text \<open>
  Claim C4, amended. When \<open>store_ioc\<close> finds a record for the key, it returns that
  record's id, leaves the caller's dictionary and the number of documents as they are, sets
  \<open>last_seen\<close> to the current time and \<open>threat_score\<close> to the maximum of the stored and
  the incoming score, and makes \<open>sources\<close> the duplicate-free union of both; \<open>tags\<close>,
  \<open>source_details\<close>, \<open>classification\<close>, \<open>description\<close>, \<open>timestamp\<close> and the id
  keep their stored values.
\<close>

theorem store_ioc_merge_effect:
  assumes "wf_db s" and "find_one (ioc_value x) (ioc_type x) s = Some e"
  shows "fst (store_ioc n1 n2 x s) = oid e \<and>
         fst (snd (store_ioc n1 n2 x s)) = Plain x \<and>
         length (docs (snd (snd (store_ioc n1 n2 x s)))) = length (docs s) \<and>
         (\<exists>d. find_one (ioc_value x) (ioc_type x) (snd (snd (store_ioc n1 n2 x s))) = Some d \<and>
              last_seen d = n1 \<and>
              threat_score d = Some (max (dict_get (threat_score e) 0)
                                         (dict_get (threat_score x) 0)) \<and>
              set (dict_get (sources d) []) =
                set (dict_get (sources e) []) \<union> set (dict_get (sources x) []) \<and>
              distinct (dict_get (sources d) []) \<and>
              tags d = tags e \<and> source_details d = source_details e \<and>
              classification d = classification e \<and> description d = description e \<and>
              timestamp d = timestamp e \<and> oid d = oid e)"
proof -
  have st: "store_ioc n1 n2 x s =
      (oid e, Plain x, s\<lparr>docs := update_one (oid e) (merge_update n1 e x) (docs s)\<rparr>)"
    using assms(2) by (simp add: store_ioc_def)
  have "find_one (ioc_value x) (ioc_type x) (snd (snd (store_ioc n1 n2 x s)))
      = Some (merge_update n1 e x e)"
    using assms by (rule store_ioc_merge(1))
  then show ?thesis by (simp add: st)
qed

theorem store_ioc_merge_effect_witness:
  "wf_db (store_all [(1, 2, obsA)] empty_db) \<and>
   find_one (ioc_value obsB) (ioc_type obsB) (store_all [(1, 2, obsA)] empty_db)
     = Some (new_doc 0 1 2 obsA) \<and>
   fst (store_ioc 3 4 obsB (store_all [(1, 2, obsA)] empty_db)) = 0 \<and>
   (\<exists>d. find_one ''198.51.100.7'' ''ip''
          (snd (snd (store_ioc 3 4 obsB (store_all [(1, 2, obsA)] empty_db)))) = Some d \<and>
        last_seen d = 3 \<and> threat_score d = Some 90 \<and>
        set (dict_get (sources d) []) = {''honeypot'', ''dns_sinkhole''} \<and>
        tags d = Some [''malware''] \<and> timestamp d = 1)"
proof -
  let ?s = "store_all [(1, 2, obsA)] empty_db"
  have w: "wf_db ?s"
    using store_ioc_wf [OF wf_empty_db] by simp
  have f: "find_one (ioc_value obsB) (ioc_type obsB) ?s = Some (new_doc 0 1 2 obsA)"
    by (simp add: store_ioc_def find_one_def has_key_def empty_db_def new_doc_def
        obsA_def obsB_def Let_def)
  have k: "ioc_value obsB = ''198.51.100.7''" "ioc_type obsB = ''ip''"
    by (simp_all add: obsB_def)
  have so: "set (dict_get (sources (new_doc 0 1 2 obsA)) []) \<union> set (dict_get (sources obsB) []) =
      {''honeypot'', ''dns_sinkhole''}"
    by (auto simp add: obsA_def obsB_def)
  have mx: "max (dict_get (threat_score (new_doc 0 1 2 obsA)) 0) (dict_get (threat_score obsB) 0)
      = (90::rat)"
    by (simp add: obsA_def obsB_def)
  have tg: "tags (new_doc 0 1 2 obsA) = Some [''malware'']" "timestamp (new_doc 0 1 2 obsA) = 1"
    "oid (new_doc 0 1 2 obsA) = 0"
    by (simp_all add: obsA_def)
  from store_ioc_merge_effect [OF w f, of 3 4] w f
  show ?thesis
    unfolding so mx tg k by blast
qed

text \<open>
  Claim C9, as stated, fails: \<open>update_ioc_tags\<close> with the single tag \<open>reviewed\<close> on a
  record tagged \<open>malware\<close> leaves the tag \<open>reviewed\<close> only.
\<close>

theorem update_ioc_tags_replaces:
  "map_option tags (find_one ''198.51.100.7'' ''ip'' (store_all [(1, 2, obsA)] empty_db))
     = Some (Some [''malware'']) \<and>
   map_option tags (find_one ''198.51.100.7'' ''ip''
      (snd (update_ioc_tags 0 [''reviewed''] (store_all [(1, 2, obsA)] empty_db))))
     = Some (Some [''reviewed'']) \<and>
   \<not> set [''malware''] \<subseteq> set [''reviewed'']"
  by (simp add: store_ioc_def find_one_def has_key_def empty_db_def new_doc_def update_ioc_tags_def
      obsA_def Let_def)

text \<open>
  Claim C9, amended. A merge by \<open>store_ioc\<close> leaves the record with a superset of the
  sources stored before and of the incoming ones, and with the tags it had.
  \<open>update_ioc_tags\<close> sets the tags of the record with the given id to the given list and
  leaves its sources as they are.
\<close>

theorem sources_grow_tags_replaced:
  assumes "wf_db s"
  shows "(find_one (ioc_value x) (ioc_type x) s = Some e \<longrightarrow>
            (\<exists>d. find_one (ioc_value x) (ioc_type x) (snd (snd (store_ioc n1 n2 x s))) = Some d \<and>
                 set (dict_get (sources e) []) \<subseteq> set (dict_get (sources d) []) \<and>
                 set (dict_get (sources x) []) \<subseteq> set (dict_get (sources d) []) \<and>
                 tags d = tags e)) \<and>
         (find (\<lambda>d. oid d = i) (docs s) = Some c \<longrightarrow>
            (\<exists>d. find (\<lambda>d. oid d = i) (docs (snd (update_ioc_tags i new_tags s))) = Some d \<and>
                 tags d = Some new_tags \<and> sources d = sources c))"
proof (intro conjI impI)
  assume "find_one (ioc_value x) (ioc_type x) s = Some e"
  with assms have "find_one (ioc_value x) (ioc_type x) (snd (snd (store_ioc n1 n2 x s)))
      = Some (merge_update n1 e x e)"
    by (rule store_ioc_merge(1))
  then show "\<exists>d. find_one (ioc_value x) (ioc_type x) (snd (snd (store_ioc n1 n2 x s))) = Some d \<and>
                 set (dict_get (sources e) []) \<subseteq> set (dict_get (sources d) []) \<and>
                 set (dict_get (sources x) []) \<subseteq> set (dict_get (sources d) []) \<and>
                 tags d = tags e"
    by simp
next
  assume f: "find (\<lambda>d. oid d = i) (docs s) = Some c"
  then have "find (\<lambda>d. oid d = i) (docs (snd (update_ioc_tags i new_tags s)))
      = Some (c\<lparr>tags := Some new_tags\<rparr>)"
    by (simp add: update_ioc_tags_def find_oid_update_one)
  then show "\<exists>d. find (\<lambda>d. oid d = i) (docs (snd (update_ioc_tags i new_tags s))) = Some d \<and>
                 tags d = Some new_tags \<and> sources d = sources c"
    by simp
qed

theorem sources_grow_tags_replaced_witness:
  "wf_db (store_all [(1, 2, obsA)] empty_db) \<and>
   find_one (ioc_value obsB) (ioc_type obsB) (store_all [(1, 2, obsA)] empty_db)
     = Some (new_doc 0 1 2 obsA) \<and>
   find (\<lambda>d. oid d = 0) (docs (store_all [(1, 2, obsA)] empty_db)) = Some (new_doc 0 1 2 obsA) \<and>
   (\<exists>d. find_one (ioc_value obsB) (ioc_type obsB)
          (snd (snd (store_ioc 3 4 obsB (store_all [(1, 2, obsA)] empty_db)))) = Some d \<and>
        {''honeypot''} \<subseteq> set (dict_get (sources d) []) \<and> tags d = Some [''malware'']) \<and>
   (\<exists>d. find (\<lambda>d. oid d = 0)
          (docs (snd (update_ioc_tags 0 [''reviewed''] (store_all [(1, 2, obsA)] empty_db)))) = Some d \<and>
        tags d = Some [''reviewed''] \<and> sources d = Some [''honeypot''])"
proof -
  let ?s = "store_all [(1, 2, obsA)] empty_db"
  have w: "wf_db ?s"
    using store_ioc_wf [OF wf_empty_db] by simp
  have f: "find_one (ioc_value obsB) (ioc_type obsB) ?s = Some (new_doc 0 1 2 obsA)"
    by (simp add: store_ioc_def find_one_def has_key_def empty_db_def new_doc_def
        obsA_def obsB_def Let_def)
  have g: "find (\<lambda>d. oid d = 0) (docs ?s) = Some (new_doc 0 1 2 obsA)"
    by (simp add: store_ioc_def find_one_def empty_db_def Let_def)
  have so: "sources obsA = Some [''honeypot'']" "tags obsA = Some [''malware'']"
    by (simp_all add: obsA_def)
  from sources_grow_tags_replaced [OF w, of obsB "new_doc 0 1 2 obsA" 3 4 0 "new_doc 0 1 2 obsA" "[''reviewed'']"]
    w f g
  show ?thesis
    by (auto simp add: so)
qed

section \<open>Classification of stored records\<close>

lemma aggregate_fields [simp]:
  "ioc_value (aggregate v t r rs) = v"
  "ioc_type (aggregate v t r rs) = t"
  "threat_score (aggregate v t r rs) = Some (fold max (map sr_threat_score rs) (sr_threat_score r))"
  "classification (aggregate v t r rs) =
     Some (classify_threat_score (fold max (map sr_threat_score rs) (sr_threat_score r)))"
  by (simp_all add: aggregate_def Let_def)

lemma fan_out_envA:
  "fan_out envA ''198.51.100.7'' ''ip'' =
     ([\<lparr>sr_source = ''virustotal'', sr_threat_score = 90, sr_classification = ''critical'',
        sr_details = [(''detected_urls'', DNum 9), (''country'', DStr ''DE''),
                      (''as_owner'', DStr ''Unknown'')]\<rparr>],
      [VT_ip ''198.51.100.7'', AbuseIPDB ''198.51.100.7''])"
  by (simp add: fan_out_def lookup_virustotal_ip_def lookup_abuseipdb_def envA_def no_key_def
      vt_result_def normalize_threat_score_def classify_threat_score_def opt_list_def Let_def)

text \<open>
  Claim C3, as stated, fails: a merge that raises the score of a record from 30 to 90
  leaves its classification at \<open>medium\<close>, while 90 classifies as \<open>critical\<close>.
\<close>

theorem merge_leaves_classification:
  "map_option threat_score (find_one ''198.51.100.7'' ''ip''
      (store_all [(1, 2, obsA), (3, 4, obsB)] empty_db)) = Some (Some 90) \<and>
   map_option classification (find_one ''198.51.100.7'' ''ip''
      (store_all [(1, 2, obsA), (3, 4, obsB)] empty_db)) = Some (Some ''medium'') \<and>
   classify_threat_score 90 = ''critical''"
  by (simp add: store_ioc_def find_one_def has_key_def empty_db_def new_doc_def merge_update_def
      obsA_def obsB_def Let_def classify_threat_score_def)

text \<open>
  Claim C3, amended. When \<open>lookup_ioc\<close> fans out and a source answers, the record it
  builds carries the classification of its own score: if the key had no record, that record
  is the one stored and returned, with \<open>classification = classify(threat_score)\<close>; if the
  key had a record that is not served from the cache, the returned dictionary has
  \<open>classification = classify(threat_score)\<close> for its own score.
\<close>

theorem lookup_ioc_classifies:
  assumes "fan_out e v t = (r # rs, calls)"
  shows "(find_one v t s = None \<longrightarrow>
            (\<exists>d sc. fst (lookup_ioc e now n1 n2 v t s) = Some (Stored d) \<and>
                find_one v t (snd (snd (lookup_ioc e now n1 n2 v t s))) = Some d \<and>
                threat_score d = Some sc \<and>
                classification d = Some (classify_threat_score sc))) \<and>
         (\<not> cache_hit now (get_ioc v t s) \<and> find_one v t s \<noteq> None \<longrightarrow>
            (\<exists>x sc. fst (lookup_ioc e now n1 n2 v t s) = Some (Plain x) \<and>
                threat_score x = Some sc \<and>
                classification x = Some (classify_threat_score sc)))"
proof (intro conjI impI)
  assume n: "find_one v t s = None"
  let ?x = "aggregate v t r rs"
  have nx: "find_one (ioc_value ?x) (ioc_type ?x) s = None"
    using n by simp
  have lk: "lookup_ioc e now n1 n2 v t s = (Some (Stored (new_doc (next_id s) n1 n2 ?x)),
      calls, snd (snd (store_ioc n1 n2 ?x s)))"
    using n assms nx
    by (simp add: lookup_ioc_def get_ioc_def cache_hit_def store_ioc_def Let_def)
  have "find_one v t (snd (snd (store_ioc n1 n2 ?x s))) = Some (new_doc (next_id s) n1 n2 ?x)"
    using store_ioc_insert(1) [OF nx, of n1 n2] by simp
  then show "\<exists>d sc. fst (lookup_ioc e now n1 n2 v t s) = Some (Stored d) \<and>
                find_one v t (snd (snd (lookup_ioc e now n1 n2 v t s))) = Some d \<and>
                threat_score d = Some sc \<and>
                classification d = Some (classify_threat_score sc)"
    by (simp add: lk)
next
  assume h: "\<not> cache_hit now (get_ioc v t s) \<and> find_one v t s \<noteq> None"
  then obtain c where c: "find_one v t s = Some c" by auto
  let ?x = "aggregate v t r rs"
  have cx: "find_one (ioc_value ?x) (ioc_type ?x) s = Some c"
    using c by simp
  have "fst (lookup_ioc e now n1 n2 v t s) = Some (Plain ?x)"
    using h assms cx by (simp add: lookup_ioc_def store_ioc_def Let_def)
  then show "\<exists>x sc. fst (lookup_ioc e now n1 n2 v t s) = Some (Plain x) \<and>
                threat_score x = Some sc \<and>
                classification x = Some (classify_threat_score sc)"
    by simp
qed

theorem lookup_ioc_classifies_witness:
  "find_one ''198.51.100.7'' ''ip'' empty_db = None \<and>
   (\<exists>d. fst (lookup_ioc envA 0 1 2 ''198.51.100.7'' ''ip'' empty_db) = Some (Stored d) \<and>
        find_one ''198.51.100.7'' ''ip''
          (snd (snd (lookup_ioc envA 0 1 2 ''198.51.100.7'' ''ip'' empty_db))) = Some d \<and>
        threat_score d = Some 90 \<and> classification d = Some ''critical'')"
proof -
  from lookup_ioc_classifies [OF fan_out_envA, of empty_db 0 1 2, THEN conjunct1, THEN mp,
      OF find_one_empty_db]
  obtain d sc where d: "fst (lookup_ioc envA 0 1 2 ''198.51.100.7'' ''ip'' empty_db) = Some (Stored d)"
    "find_one ''198.51.100.7'' ''ip''
       (snd (snd (lookup_ioc envA 0 1 2 ''198.51.100.7'' ''ip'' empty_db))) = Some d"
    "threat_score d = Some sc" "classification d = Some (classify_threat_score sc)"
    by blast
  have "fst (lookup_ioc envA 0 1 2 ''198.51.100.7'' ''ip'' empty_db) =
      Some (Stored (new_doc 0 1 2 (aggregate ''198.51.100.7'' ''ip''
         \<lparr>sr_source = ''virustotal'', sr_threat_score = 90, sr_classification = ''critical'',
          sr_details = [(''detected_urls'', DNum 9), (''country'', DStr ''DE''),
                      (''as_owner'', DStr ''Unknown'')]\<rparr> [])))"
    by (simp add: lookup_ioc_def get_ioc_def cache_hit_def find_one_empty_db fan_out_envA
        store_ioc_def Let_def)
       (simp add: empty_db_def)
  with d(1) have "threat_score d = Some 90" by auto
  with d(3) have "sc = 90" by simp
  with d show ?thesis
    by (auto simp add: find_one_empty_db classify_threat_score_def)
qed

section \<open>The cache test of \<open>lookup_ioc\<close>\<close>

text \<open>
  A record whose age is at least zero and below one hour is returned without any source
  call.
\<close>

lemma lookup_ioc_fresh:
  assumes "get_ioc v t s = Some c" and "0 \<le> now - last_seen c" and "now - last_seen c < hour"
  shows "lookup_ioc e now n1 n2 v t s = (Some (Stored c), [], s)"
proof -
  from assms(2,3) have "(now - last_seen c) div 1000000 < 3600"
    by (simp add: hour_def)
  moreover from assms(2) have "0 \<le> (now - last_seen c) div 1000000"
    by simp
  ultimately have "td_seconds (now - last_seen c) < 3600"
    by (simp add: td_seconds_def)
  with assms(1) show ?thesis
    by (simp add: lookup_ioc_def cache_hit_def Let_def)
qed

text \<open>
  Claim C7, evaluated where it fails: a record last seen one day and ten minutes before
  the lookup is older than one hour, yet \<open>.seconds\<close> of its age is 600 and
  \<open>lookup_ioc\<close> returns it from the cache with no source call.
\<close>

theorem lookup_ioc_serves_day_old_record:
  "lookup_ioc e (87000 * 1000000) n1 n2 ''198.51.100.7'' ''ip'' (store_all [(0, 0, obsA)] empty_db)
     = (Some (Stored (new_doc 0 0 0 obsA)), [], store_all [(0, 0, obsA)] empty_db) \<and>
   hour \<le> 87000 * 1000000 - last_seen (new_doc 0 0 0 obsA) \<and>
   td_seconds (87000 * 1000000 - last_seen (new_doc 0 0 0 obsA)) = 600"
proof -
  have g: "get_ioc ''198.51.100.7'' ''ip'' (store_all [(0, 0, obsA)] empty_db)
      = Some (new_doc 0 0 0 obsA)"
    by (simp add: get_ioc_def store_ioc_def find_one_def has_key_def empty_db_def new_doc_def
        obsA_def Let_def)
  have t: "td_seconds 87000000000 = 600"
    by (simp add: td_seconds_def)
  show ?thesis
    by (simp add: lookup_ioc_def g cache_hit_def t Let_def del: store_all.simps)
       (simp add: hour_def)
qed

section \<open>Faults inside a monitoring cycle\<close>

lemma stats_updates_append: "stats_updates (xs @ ys) = stats_updates xs @ stats_updates ys"
  by (induction xs rule: stats_updates.induct) auto

lemma simulate_prefix:
  assumes "list_all (\<lambda>y. det_fault y = No_fault) pre"
  shows "\<exists>m'. simulate_threat_detection (pre @ rest) m = simulate_threat_detection rest m' \<and>
           mon_db m' = store_all (map stamp pre) (mon_db m) \<and>
           live_stats m' = live_stats m \<and>
           stats_updates (emitted m') = stats_updates (emitted m)"
  using assms
proof (induction pre arbitrary: m)
  case Nil
  show ?case by (rule exI [of _ m]) simp
next
  case (Cons x pre)
  from Cons.prems have nf: "det_fault x = No_fault" and rst: "list_all (\<lambda>y. det_fault y = No_fault) pre"
    by simp_all
  obtain i after s' where st: "store_ioc (clock1 x) (clock2 x) (threat_data x) (mon_db m) = (i, after, s')"
    by (cases "store_ioc (clock1 x) (clock2 x) (threat_data x) (mon_db m)") auto
  let ?m1 = "m\<lparr>mon_db := s', emitted := emitted m @ [New_threat after (clock_emit x)]\<rparr>"
  have step: "simulate_threat_detection ((x # pre) @ rest) m = simulate_threat_detection (pre @ rest) ?m1"
    using nf st by simp
  from Cons.IH [OF rst, of ?m1] obtain m' where
    m': "simulate_threat_detection (pre @ rest) ?m1 = simulate_threat_detection rest m'"
      "mon_db m' = store_all (map stamp pre) (mon_db ?m1)"
      "live_stats m' = live_stats ?m1"
      "stats_updates (emitted m') = stats_updates (emitted ?m1)"
    by blast
  have "mon_db m' = store_all (map stamp (x # pre)) (mon_db m)"
    using m'(2) st by (simp add: stamp_def)
  moreover have "live_stats m' = live_stats m"
    using m'(3) by simp
  moreover have "stats_updates (emitted m') = stats_updates (emitted m)"
    using m'(4) by (simp add: stats_updates_append)
  ultimately show ?case
    using step m'(1) by metis
qed

lemma simulate_faulty_head:
  assumes "det_fault x \<noteq> No_fault"
  shows "fst (simulate_threat_detection (x # post) m) = Exception \<and>
         live_stats (snd (simulate_threat_detection (x # post) m)) = live_stats m \<and>
         emitted (snd (simulate_threat_detection (x # post) m)) = emitted m \<and>
         mon_db (snd (simulate_threat_detection (x # post) m)) =
           (if det_fault x = Store_raises then mon_db m else store_all [stamp x] (mon_db m))"
proof (cases "det_fault x")
  case No_fault
  with assms show ?thesis by simp
next
  case Store_raises
  then show ?thesis by simp
next
  case Emit_raises
  then show ?thesis
    by (cases "store_ioc (clock1 x) (clock2 x) (threat_data x) (mon_db m)")
       (simp add: stamp_def)
qed

text \<open>
  Claim C8, as stated, fails: in a cycle of three detections whose second one raises in
  the database call, only the first is recorded, the third is never stored, the statistics
  keep their old values although a recompute would count one threat, no statistics update is
  emitted, and the loop sleeps 30 seconds.
\<close>

theorem monitor_cycle_fault_skips_rest:
  "fst (monitor_cycle cycleA monA) = 30 \<and>
   map ioc_value (docs (mon_db (snd (monitor_cycle cycleA monA)))) = [''198.51.100.7''] \<and>
   find_one ''secure-bank77.tk'' ''domain'' (mon_db (snd (monitor_cycle cycleA monA))) = None \<and>
   live_stats (snd (monitor_cycle cycleA monA)) = statsA \<and>
   stats_updates (emitted (snd (monitor_cycle cycleA monA))) = [] \<and>
   threats_last_hour (update_live_stats 10 False drawsA
      (mon_db (snd (monitor_cycle cycleA monA))) statsA) = 1"
  by (simp add: monitor_cycle_def cycleA_def monA_def store_ioc_def find_one_def has_key_def
      empty_db_def new_doc_def obsA_def obsC_def obsD_def Let_def update_live_stats_def
      count_documents_def hour_def)

text \<open>
  Claim C8, amended. An error raised while processing an observation ends the cycle at
  that observation: the observations before it are recorded (and the failing one too when
  the error comes after its store), the observations after it are not processed, the
  statistics are not recomputed, no statistics update is emitted, and the loop sleeps 30
  seconds before its next cycle. When no observation fails, all of them are recorded, the
  statistics are recomputed over the resulting collection and, unless the broadcast fails,
  emitted, and the loop sleeps 10 seconds.
\<close>

theorem monitor_cycle_fault_ends_cycle:
  "(detections c = pre @ x # post \<and> list_all (\<lambda>y. det_fault y = No_fault) pre \<and>
      det_fault x \<noteq> No_fault \<longrightarrow>
      fst (monitor_cycle c m) = 30 \<and>
      mon_db (snd (monitor_cycle c m)) =
        (if det_fault x = Store_raises then store_all (map stamp pre) (mon_db m)
         else store_all (map stamp (pre @ [x])) (mon_db m)) \<and>
      live_stats (snd (monitor_cycle c m)) = live_stats m \<and>
      stats_updates (emitted (snd (monitor_cycle c m))) = stats_updates (emitted m)) \<and>
   (list_all (\<lambda>y. det_fault y = No_fault) (detections c) \<longrightarrow>
      mon_db (snd (monitor_cycle c m)) = store_all (map stamp (detections c)) (mon_db m) \<and>
      live_stats (snd (monitor_cycle c m)) =
        update_live_stats (stats_clock c) (counts_raise c) (stats_draws c)
          (store_all (map stamp (detections c)) (mon_db m)) (live_stats m) \<and>
      (\<not> broadcast_raises c \<longrightarrow>
         fst (monitor_cycle c m) = 10 \<and>
         stats_updates (emitted (snd (monitor_cycle c m))) =
           stats_updates (emitted m) @ [live_stats (snd (monitor_cycle c m))]))"
proof (intro conjI impI)
  assume h: "detections c = pre @ x # post \<and> list_all (\<lambda>y. det_fault y = No_fault) pre \<and>
      det_fault x \<noteq> No_fault"
  from simulate_prefix [of pre "x # post" m] h obtain m' where
    m': "simulate_threat_detection (detections c) m = simulate_threat_detection (x # post) m'"
      "mon_db m' = store_all (map stamp pre) (mon_db m)"
      "live_stats m' = live_stats m"
      "stats_updates (emitted m') = stats_updates (emitted m)"
    by auto
  from h have f: "det_fault x \<noteq> No_fault" by simp
  note hd = simulate_faulty_head [OF f, of post m']
  obtain m1 where sim: "simulate_threat_detection (detections c) m = (Exception, m1)"
    using m'(1) hd by (cases "simulate_threat_detection (x # post) m'") auto
  then have cyc: "monitor_cycle c m = (30, m1)"
    by (simp add: monitor_cycle_def)
  from sim m'(1) have m1: "m1 = snd (simulate_threat_detection (x # post) m')"
    by simp
  show "fst (monitor_cycle c m) = 30" by (simp add: cyc)
  show "mon_db (snd (monitor_cycle c m)) =
        (if det_fault x = Store_raises then store_all (map stamp pre) (mon_db m)
         else store_all (map stamp (pre @ [x])) (mon_db m))"
    using hd m'(2) by (simp add: cyc m1 store_all_append)
  show "live_stats (snd (monitor_cycle c m)) = live_stats m"
    using hd m'(3) by (simp add: cyc m1)
  show "stats_updates (emitted (snd (monitor_cycle c m))) = stats_updates (emitted m)"
    using hd m'(4) by (simp add: cyc m1)
next
  assume h: "list_all (\<lambda>y. det_fault y = No_fault) (detections c)"
  from simulate_prefix [OF h, of "[]" m] obtain m' where
    m': "simulate_threat_detection (detections c) m = (Returned, m')"
      "mon_db m' = store_all (map stamp (detections c)) (mon_db m)"
      "live_stats m' = live_stats m"
      "stats_updates (emitted m') = stats_updates (emitted m)"
    by auto
  show "mon_db (snd (monitor_cycle c m)) = store_all (map stamp (detections c)) (mon_db m)"
    using m' by (simp add: monitor_cycle_def Let_def)
  show "live_stats (snd (monitor_cycle c m)) =
        update_live_stats (stats_clock c) (counts_raise c) (stats_draws c)
          (store_all (map stamp (detections c)) (mon_db m)) (live_stats m)"
    using m' by (simp add: monitor_cycle_def Let_def)
  show "fst (monitor_cycle c m) = 10" if "\<not> broadcast_raises c"
    using m' that by (simp add: monitor_cycle_def Let_def)
  show "stats_updates (emitted (snd (monitor_cycle c m))) =
           stats_updates (emitted m) @ [live_stats (snd (monitor_cycle c m))]"
    if "\<not> broadcast_raises c"
    using m' that by (simp add: monitor_cycle_def Let_def stats_updates_append)
qed

theorem monitor_cycle_fault_ends_cycle_witness:
  "fst (monitor_cycle cycleA monA) = 30 \<and>
   mon_db (snd (monitor_cycle cycleA monA)) = store_all [(1, 2, obsA)] empty_db \<and>
   live_stats (snd (monitor_cycle cycleA monA)) = statsA \<and>
   stats_updates (emitted (snd (monitor_cycle cycleA monA))) = [] \<and>
   fst (monitor_cycle (cycleA\<lparr>detections := [hd (detections cycleA)]\<rparr>) monA) = 10 \<and>
   mon_db (snd (monitor_cycle (cycleA\<lparr>detections := [hd (detections cycleA)]\<rparr>) monA)) =
     store_all [(1, 2, obsA)] empty_db \<and>
   threats_last_hour (live_stats
     (snd (monitor_cycle (cycleA\<lparr>detections := [hd (detections cycleA)]\<rparr>) monA))) = 1"
proof -
  let ?d1 = "\<lparr>threat_data = obsA, det_fault = No_fault, clock1 = 1, clock2 = 2, clock_emit = 3\<rparr>"
  let ?d2 = "\<lparr>threat_data = obsC, det_fault = Store_raises, clock1 = 4, clock2 = 5, clock_emit = 6\<rparr>"
  let ?d3 = "\<lparr>threat_data = obsD, det_fault = No_fault, clock1 = 7, clock2 = 8, clock_emit = 9\<rparr>"
  let ?c1 = "cycleA\<lparr>detections := [hd (detections cycleA)]\<rparr>"
  have a: "detections cycleA = [?d1] @ ?d2 # [?d3] \<and>
      list_all (\<lambda>y. det_fault y = No_fault) [?d1] \<and> det_fault ?d2 \<noteq> No_fault"
    by (simp add: cycleA_def)
  have b: "list_all (\<lambda>y. det_fault y = No_fault) (detections ?c1)" "\<not> broadcast_raises ?c1"
    "detections ?c1 = [?d1]"
    by (simp_all add: cycleA_def)
  have st: "map stamp [?d1] = [(1, 2, obsA)]"
    by (simp add: stamp_def)
  have cnt: "threats_last_hour (update_live_stats (stats_clock ?c1) (counts_raise ?c1)
      (stats_draws ?c1) (store_all [(1, 2, obsA)] (mon_db monA)) (live_stats monA)) = 1"
    by (simp add: cycleA_def monA_def update_live_stats_def count_documents_def hour_def
        store_ioc_def find_one_def empty_db_def Let_def)
  have m: "mon_db monA = empty_db" "live_stats monA = statsA" "emitted monA = []"
    by (simp_all add: monA_def)
  from monitor_cycle_fault_ends_cycle [of cycleA "[?d1]" ?d2 "[?d3]" monA, THEN conjunct1, THEN mp, OF a]
    monitor_cycle_fault_ends_cycle [of ?c1 "[]" ?d2 "[]" monA, THEN conjunct2, THEN mp, OF b(1)]
    b(2) cnt
  show ?thesis
    by (simp only: b(3) st m) simp
qed

end
